theory Spec2Isabelle
  imports Main
begin

unbundle bit_operations_syntax

section \<open>The flag constants of logt.go\<close>

text \<open>
  The constant block of logt.go gives every flag the value \<^verbatim>\<open>1 << iota\<close>, where iota is
  the position of the constant in the block (0 for Ldate, 6 for LCaller). Go's \<^verbatim>\<open>int\<close>
  is modelled as \<^typ>\<open>int\<close>: the flags are only ever combined with \<^verbatim>\<open>|\<close> and tested with
  \<^verbatim>\<open>&\<close>, which agree with the two's complement operations of HOL on every value.
\<close>

definition Ldate :: int where "Ldate = push_bit 0 1"
definition Ltime :: int where "Ltime = push_bit 1 1"
definition Lmicroseconds :: int where "Lmicroseconds = push_bit 2 1"
definition Llongfile :: int where "Llongfile = push_bit 3 1"
definition Lshortfile :: int where "Lshortfile = push_bit 4 1"
definition LUTC :: int where "LUTC = push_bit 5 1"
definition LCaller :: int where "LCaller = push_bit 6 1"
definition LstdFlags :: int where "LstdFlags = Ldate OR Ltime"

lemmas flag_defs =
  Ldate_def Ltime_def Lmicroseconds_def Llongfile_def Lshortfile_def LUTC_def LCaller_def
  LstdFlags_def

section \<open>Values and package fmt\<close>

text \<open>
  An argument of type \<^verbatim>\<open>interface{}\<close> is modelled by what the logger can observe of it:
  whether it is the nil interface, whether its kind is string, whether its dynamic type
  implements \<^verbatim>\<open>error\<close>, the name of its dynamic type and its rendering under the verb
  \<^verbatim>\<open>%v\<close>. \<open>VString s\<close> is a value of the predeclared type \<^verbatim>\<open>string\<close>.
  \<open>VError t k m\<close> is a value of a type named \<open>t\<close> that implements \<^verbatim>\<open>error\<close> and whose
  \<^verbatim>\<open>Error()\<close> method returns \<open>m\<close>; \<open>VOther t k r\<close> is any other value, of a type named
  \<open>t\<close>, that prints as \<open>r\<close>. In both, \<open>k\<close> tells whether the kind of the type is string
  (as for \<^verbatim>\<open>type strErr string\<close> with an \<^verbatim>\<open>Error\<close> method, or \<^verbatim>\<open>type Name string\<close>).
\<close>

datatype val =
    VNil
  | VString string
  | VInt int
  | VBool bool
  | VError string bool string
  | VOther string bool string

text \<open>The type assertion \<^verbatim>\<open>av.(error)\<close> of anyErr.\<close>

fun is_error :: "val \<Rightarrow> bool" where
  "is_error (VError t k m) = True"
| "is_error VNil = False"
| "is_error (VString s) = False"
| "is_error (VInt i) = False"
| "is_error (VBool b) = False"
| "is_error (VOther t k r) = False"

text \<open>Decimal digits, as fmt's integer formatting produces them (most significant first).\<close>

definition digit_char :: "nat \<Rightarrow> char" where
  "digit_char d = ''0123456789'' ! d"

fun digits :: "nat \<Rightarrow> string" where
  "digits n = (if n < 10 then [digit_char n] else digits (n div 10) @ [digit_char (n mod 10)])"

definition fmt_int :: "int \<Rightarrow> string" where
  "fmt_int i = (if i < 0 then ''-'' @ digits (nat (- i)) else digits (nat i))"

text \<open>The verb \<^verbatim>\<open>%02d\<close>: at least two digits, zero padded; the sign counts for the width.\<close>

definition fmt_int02 :: "int \<Rightarrow> string" where
  "fmt_int02 i =
     (if i < 0 then ''-'' @ digits (nat (- i))
      else if i < 10 then ''0'' @ digits (nat i)
      else digits (nat i))"

text \<open>One operand under the verb \<^verbatim>\<open>%v\<close> (fmt's printArg; an error prints its message).\<close>

fun printArg :: "val \<Rightarrow> string" where
  "printArg VNil = ''<nil>''"
| "printArg (VString s) = s"
| "printArg (VInt i) = fmt_int i"
| "printArg (VBool b) = (if b then ''true'' else ''false'')"
| "printArg (VError t k m) = m"
| "printArg (VOther t k r) = r"

text \<open>
  The test of doPrint on an operand: it is not nil and the kind of its type is string.
\<close>

fun isString :: "val \<Rightarrow> bool" where
  "isString (VString s) = True"
| "isString VNil = False"
| "isString (VInt i) = False"
| "isString (VBool b) = False"
| "isString (VError t k m) = k"
| "isString (VOther t k r) = k"

fun typeName :: "val \<Rightarrow> string" where
  "typeName VNil = ''<nil>''"
| "typeName (VString s) = ''string''"
| "typeName (VInt i) = ''int''"
| "typeName (VBool b) = ''bool''"
| "typeName (VError t k m) = t"
| "typeName (VOther t k r) = t"

text \<open>
  \<^verbatim>\<open>fmt.Sprint\<close> is the loop of fmt's doPrint: it walks the operands with the index
  \<open>argNum\<close> and the flag \<open>prevString\<close>, and writes a space before an operand only
  when it is not the first and neither it nor its predecessor is a string.
\<close>

fun doPrint :: "bool \<Rightarrow> nat \<Rightarrow> val list \<Rightarrow> string" where
  "doPrint prevString argNum [] = []"
| "doPrint prevString argNum (arg # a) =
     (if 0 < argNum \<and> \<not> isString arg \<and> \<not> prevString then '' '' else [])
       @ printArg arg @ doPrint (isString arg) (Suc argNum) a"

definition Sprint :: "val list \<Rightarrow> string" where
  "Sprint a = doPrint False 0 a"

text \<open>
  \<^verbatim>\<open>fmt.Sprintf\<close>. On the empty format no directive consumes an operand, so fmt reports
  every operand as extra: \<^verbatim>\<open>%!(EXTRA type=value, ...)\<close>, and nothing when there is no
  operand. On a non-empty format the result is the directive processing of package fmt,
  which is a parameter of the model (\<open>directives\<close>).
\<close>

fun commaSep :: "string list \<Rightarrow> string" where
  "commaSep [] = []"
| "commaSep [x] = x"
| "commaSep (x # y # ys) = x @ '', '' @ commaSep (y # ys)"

fun extraArg :: "val \<Rightarrow> string" where
  "extraArg VNil = ''<nil>''"
| "extraArg (VString s) = typeName (VString s) @ ''='' @ printArg (VString s)"
| "extraArg (VInt i) = typeName (VInt i) @ ''='' @ printArg (VInt i)"
| "extraArg (VBool b) = typeName (VBool b) @ ''='' @ printArg (VBool b)"
| "extraArg (VError t k m) = typeName (VError t k m) @ ''='' @ printArg (VError t k m)"
| "extraArg (VOther t k r) = typeName (VOther t k r) @ ''='' @ printArg (VOther t k r)"

definition Sprintf :: "(string \<Rightarrow> val list \<Rightarrow> string) \<Rightarrow> string \<Rightarrow> val list \<Rightarrow> string" where
  "Sprintf directives format a =
     (if format = [] then
        (if a = [] then [] else ''%!(EXTRA '' @ commaSep (map extraArg a) @ '')'')
      else directives format a)"

text \<open>
  \<^verbatim>\<open>strings.TrimSpace\<close> on ASCII text (the layouts it is applied to are ASCII): it drops
  the leading and trailing tab, line feed, vertical tab, form feed, carriage return and
  space characters.
\<close>

definition asciiSpace :: "char \<Rightarrow> bool" where
  "asciiSpace c =
     (c = CHR 0x09 \<or> c = CHR 0x0A \<or> c = CHR 0x0B \<or> c = CHR 0x0C \<or> c = CHR 0x0D \<or> c = CHR '' '')"

definition TrimSpace :: "string \<Rightarrow> string" where
  "TrimSpace s = rev (dropWhile asciiSpace (rev (dropWhile asciiSpace s)))"

text \<open>
  \<^verbatim>\<open>strings.LastIndex(name, ".")\<close>: the index of the last occurrence of the byte, or -1.
\<close>

fun LastIndex :: "string \<Rightarrow> char \<Rightarrow> int" where
  "LastIndex [] c = - 1"
| "LastIndex (x # xs) c =
     (if 0 \<le> LastIndex xs c then LastIndex xs c + 1 else if x = c then 0 else - 1)"

section \<open>The platform\<close>

text \<open>
  What StdLogget.Printf reads from outside the repository is a parameter of the model:
  the directive processing of fmt, the escape sequences the colour package writes before
  and after a coloured text (empty when colour is disabled), the clock and the time
  formatting, the call stack (\<^verbatim>\<open>runtime.Caller\<close> at a skip depth gives the program
  counter, file and line, or fails), the function name of a program counter, and the path
  functions of \<^verbatim>\<open>path/filepath\<close>.
\<close>

datatype Attribute = FgHiRed | FgHiBlue

record 't platform =
  fmt_directives :: "string \<Rightarrow> val list \<Rightarrow> string"
  color_setWriter :: "Attribute \<Rightarrow> string"
  color_unsetWriter :: "Attribute \<Rightarrow> string"
  time_Now :: "'t"
  time_UTC :: "'t \<Rightarrow> 't"
  time_Format :: "'t \<Rightarrow> string \<Rightarrow> string"
  runtime_Caller :: "int \<Rightarrow> (nat \<times> string \<times> int) option"
  runtime_FuncName :: "nat \<Rightarrow> string"
  filepath_Split :: "string \<Rightarrow> string \<times> string"
  filepath_Base :: "string \<Rightarrow> string"
  filepath_Join :: "string \<Rightarrow> string \<Rightarrow> string"

text \<open>\<^verbatim>\<open>color.New(attr).Fprintf(w, text)\<close>: the text between the attribute's sequences.\<close>

definition color_Fprintf :: "'t platform \<Rightarrow> Attribute \<Rightarrow> string \<Rightarrow> string" where
  "color_Fprintf P attr s = color_setWriter P attr @ s @ color_unsetWriter P attr"

section \<open>Caller resolution: here\<close>

datatype callerErr = errNotAvailable

text \<open>
  Lines 141 to 146 of here: the function name is cut after the last dot when that dot is
  at a positive index and is not the last byte.
\<close>

definition funcNameOf :: "string \<Rightarrow> string" where
  "funcNameOf name =
     (let ix = LastIndex name CHR ''.'' in
      if 0 < ix \<and> ix + 1 < int (length name) then drop (nat (ix + 1)) name else name)"

text \<open>
  here returns the function name, the file name shortened to parent directory and base
  name, and the line; or the error when \<^verbatim>\<open>runtime.Caller\<close> fails. The skip depth is 1
  unless the first optional argument is larger.
\<close>

definition here :: "'t platform \<Rightarrow> int list \<Rightarrow> callerErr + (string \<times> string \<times> int)" where
  "here P skip =
     (let sk = (case skip of [] \<Rightarrow> 1 | s # rest \<Rightarrow> if 1 < s then s else 1) in
      case runtime_Caller P sk of
        None \<Rightarrow> Inl errNotAvailable
      | Some (pc, fileName, fileLine) \<Rightarrow>
          (let funcName = funcNameOf (runtime_FuncName P pc);
               (nd, nf) = filepath_Split P fileName
           in Inr (funcName, filepath_Join P (filepath_Base P nd) nf, fileLine)))"

section \<open>StdLogget\<close>

record StdLogget =
  prefix :: string
  flag :: int

definition NewStdLogget :: StdLogget where
  "NewStdLogget = \<lparr>prefix = [], flag = 0\<rparr>"

definition Flags :: "StdLogget \<Rightarrow> int" where "Flags sl = flag sl"
definition Prefix :: "StdLogget \<Rightarrow> string" where "Prefix sl = prefix sl"
definition SetFlags :: "int \<Rightarrow> StdLogget \<Rightarrow> StdLogget" where "SetFlags f sl = sl\<lparr>flag := f\<rparr>"
definition SetPrefix :: "string \<Rightarrow> StdLogget \<Rightarrow> StdLogget" where
  "SetPrefix p sl = sl\<lparr>prefix := p\<rparr>"

fun anyErr :: "val list \<Rightarrow> bool" where
  "anyErr [] = False"
| "anyErr (av # v) = (if is_error av then True else anyErr v)"

text \<open>
  StdLogget.Printf writes three segments to the buffer, in this order, and its deferred
  function then prints the buffer, one space and the message to standard output. Each
  segment is a function here; \<open>StdLogget_Printf\<close> is the text of that single write. The
  buffer pool only recycles the buffer (it is reset when taken) and is not modelled.
\<close>

definition severity_tag :: "val list \<Rightarrow> Attribute \<times> string" where
  "severity_tag vset = (if anyErr vset then (FgHiRed, ''[error]'') else (FgHiBlue, ''[info ]''))"

definition severity_segment :: "'t platform \<Rightarrow> val list \<Rightarrow> string" where
  "severity_segment P vset = (case severity_tag vset of (attr, s) \<Rightarrow> color_Fprintf P attr s)"

definition dtFormat :: "int \<Rightarrow> string" where
  "dtFormat fl =
     (if fl AND Ldate \<noteq> 0 then ''2006/01/02 '' else [])
       @ (if fl AND Ltime \<noteq> 0 then ''15:04:05''
          else if fl AND Lmicroseconds \<noteq> 0 then ''15:04:05.000000''
          else [])"

definition timestamp_segment :: "'t platform \<Rightarrow> int \<Rightarrow> string" where
  "timestamp_segment P fl =
     (if fl AND (Ldate OR Ltime OR Lmicroseconds) \<noteq> 0 then
        (let dt = (if fl AND LUTC \<noteq> 0 then time_UTC P (time_Now P) else time_Now P)
         in '' '' @ time_Format P dt (TrimSpace (dtFormat fl)))
      else [])"

text \<open>The loop of the short-file branch: the text after the last slash at an index above 0.\<close>

fun shortName :: "string \<Rightarrow> nat \<Rightarrow> string" where
  "shortName fileName 0 = fileName"
| "shortName fileName (Suc i) =
     (if fileName ! Suc i = CHR ''/'' then drop (Suc (Suc i)) fileName else shortName fileName i)"

definition caller_segment :: "'t platform \<Rightarrow> int \<Rightarrow> string" where
  "caller_segment P fl =
     (if fl AND (LCaller OR Lshortfile OR Llongfile) \<noteq> 0 then
        (case here P [4] of
           Inl fileErr \<Rightarrow> []
         | Inr (funcName, fileName, fileLine) \<Rightarrow>
             if fl AND LCaller \<noteq> 0 then
               '' '' @ fileName @ '':'' @ fmt_int02 fileLine @ '' '' @ funcName @ ''()''
             else if fl AND Lshortfile \<noteq> 0 then
               Sprintf (fmt_directives P) ('' '' @ shortName fileName (length fileName - 1)) []
             else [])
      else [])"

definition message_segment :: "'t platform \<Rightarrow> string \<Rightarrow> val list \<Rightarrow> string" where
  "message_segment P format vset =
     (if format = [] then Sprint vset else Sprintf (fmt_directives P) format vset)"

definition StdLogget_Printf :: "'t platform \<Rightarrow> StdLogget \<Rightarrow> string \<Rightarrow> val list \<Rightarrow> string" where
  "StdLogget_Printf P sl format vset =
     (let buf = severity_segment P vset @ timestamp_segment P (flag sl) @ caller_segment P (flag sl)
      in buf @ '' '' @ message_segment P format vset)"

section \<open>The Logger facade\<close>

text \<open>
  The Output interface is a record of its methods over a world \<open>'w\<close> (the state behind
  the interface value, and whatever it writes to). A Logger method returns the world it
  leaves and how it ends: by returning, by \<^verbatim>\<open>os.Exit\<close> or by a panic with a value.
\<close>

record 'w Output =
  out_Printf :: "string \<Rightarrow> val list \<Rightarrow> 'w \<Rightarrow> 'w"
  out_Flags :: "'w \<Rightarrow> int"
  out_Prefix :: "'w \<Rightarrow> string"
  out_SetFlags :: "int \<Rightarrow> 'w \<Rightarrow> 'w"
  out_SetPrefix :: "string \<Rightarrow> 'w \<Rightarrow> 'w"

record 'w Logger =
  out :: "'w Output"

datatype control = Returns | Exits int | Panics string

definition New :: "'w Output \<Rightarrow> string \<Rightarrow> int \<Rightarrow> 'w \<Rightarrow> 'w Logger \<times> 'w" where
  "New ou pre fl w = (\<lparr>out = ou\<rparr>, out_SetPrefix ou pre (out_SetFlags ou fl w))"

definition Logger_Fatal :: "'w Logger \<Rightarrow> val list \<Rightarrow> 'w \<Rightarrow> 'w \<times> control" where
  "Logger_Fatal l v w = (out_Printf (out l) [] v w, Exits 1)"

definition Logger_Fatalf :: "'w Logger \<Rightarrow> string \<Rightarrow> val list \<Rightarrow> 'w \<Rightarrow> 'w \<times> control" where
  "Logger_Fatalf l format v w = (out_Printf (out l) format v w, Exits 1)"

definition Logger_Fatalln :: "'w Logger \<Rightarrow> val list \<Rightarrow> 'w \<Rightarrow> 'w \<times> control" where
  "Logger_Fatalln l v w =
     (let v' = v @ [VString [CHR 0x0A]] in (out_Printf (out l) [] v' w, Exits 1))"

definition Logger_Panic :: "'w Logger \<Rightarrow> val list \<Rightarrow> 'w \<Rightarrow> 'w \<times> control" where
  "Logger_Panic l v w = (out_Printf (out l) [] v w, Panics (Sprint v))"

definition Logger_Panicf ::
  "(string \<Rightarrow> val list \<Rightarrow> string) \<Rightarrow> 'w Logger \<Rightarrow> string \<Rightarrow> val list \<Rightarrow> 'w \<Rightarrow> 'w \<times> control" where
  "Logger_Panicf directives l format v w =
     (out_Printf (out l) format v w, Panics (Sprintf directives format v))"

definition Logger_Panicln :: "'w Logger \<Rightarrow> val list \<Rightarrow> 'w \<Rightarrow> 'w \<times> control" where
  "Logger_Panicln l v w =
     (let v' = v @ [VString [CHR 0x0A]] in (out_Printf (out l) [] v' w, Panics (Sprint v')))"

definition Logger_Print :: "'w Logger \<Rightarrow> val list \<Rightarrow> 'w \<Rightarrow> 'w \<times> control" where
  "Logger_Print l v w = (out_Printf (out l) [] v w, Returns)"

definition Logger_Printf :: "'w Logger \<Rightarrow> string \<Rightarrow> val list \<Rightarrow> 'w \<Rightarrow> 'w \<times> control" where
  "Logger_Printf l format v w = (out_Printf (out l) format v w, Returns)"

definition Logger_Println :: "'w Logger \<Rightarrow> val list \<Rightarrow> 'w \<Rightarrow> 'w \<times> control" where
  "Logger_Println l v w =
     (let v' = v @ [VString [CHR 0x0A]] in (out_Printf (out l) [] v' w, Returns))"

text \<open>
  Two implementations of Output. The first is \<^verbatim>\<open>*StdLogget\<close>: its world is the StdLogget
  and the writes made to standard output so far. The second only records the calls of
  Printf it receives (the mock that logt_test.go asks for).
\<close>

record std_world =
  logget :: StdLogget
  stdout :: "string list"

definition StdLogget_Output :: "'t platform \<Rightarrow> std_world Output" where
  "StdLogget_Output P =
     \<lparr>out_Printf = (\<lambda>format vset w. w\<lparr>stdout := stdout w @ [StdLogget_Printf P (logget w) format vset]\<rparr>),
      out_Flags = (\<lambda>w. Flags (logget w)),
      out_Prefix = (\<lambda>w. Prefix (logget w)),
      out_SetFlags = (\<lambda>f w. w\<lparr>logget := SetFlags f (logget w)\<rparr>),
      out_SetPrefix = (\<lambda>p w. w\<lparr>logget := SetPrefix p (logget w)\<rparr>)\<rparr>"

record rec_world =
  calls :: "(string \<times> val list) list"
  rec_flag :: int
  rec_prefix :: string

definition Recorder :: "rec_world Output" where
  "Recorder =
     \<lparr>out_Printf = (\<lambda>format vset w. w\<lparr>calls := calls w @ [(format, vset)]\<rparr>),
      out_Flags = rec_flag,
      out_Prefix = rec_prefix,
      out_SetFlags = (\<lambda>f w. w\<lparr>rec_flag := f\<rparr>),
      out_SetPrefix = (\<lambda>p w. w\<lparr>rec_prefix := p\<rparr>)\<rparr>"

section \<open>Reference definitions and an example platform\<close>

text \<open>
  The spacing rule of \<^verbatim>\<open>fmt.Sprint\<close> stated on adjacent operands, without the loop
  state: a space stands between two neighbours exactly when neither is a string.
\<close>

fun operandsJoined :: "val list \<Rightarrow> string" where
  "operandsJoined [] = []"
| "operandsJoined [a] = printArg a"
| "operandsJoined (a # b # rest) =
     printArg a @ (if \<not> isString a \<and> \<not> isString b then '' '' else [])
       @ operandsJoined (b # rest)"

text \<open>
  The message of the specification for an empty format: the stringified arguments with
  one space between every two neighbours.
\<close>

fun spaceSeparated :: "val list \<Rightarrow> string" where
  "spaceSeparated [] = []"
| "spaceSeparated [a] = printArg a"
| "spaceSeparated (a # b # rest) = printArg a @ '' '' @ spaceSeparated (b # rest)"

text \<open>
  The function-name extraction of the specification: the text after the last dot, and
  the identifier itself when it has no dot or nothing follows the last dot.
\<close>

definition afterLastDot :: "string \<Rightarrow> string" where
  "afterLastDot name = rev (takeWhile (\<lambda>c. c \<noteq> CHR ''.'') (rev name))"

definition spec_funcName :: "string \<Rightarrow> string" where
  "spec_funcName name =
     (if CHR ''.'' \<notin> set name \<or> afterLastDot name = [] then name else afterLastDot name)"

text \<open>
  A string with an empty qualifier: its only dot is its first byte, and a name follows.
  A fully qualified function identifier is not of this form (the Go toolchain names a
  function with its package path before the dot).
\<close>

definition emptyQualifier :: "string \<Rightarrow> bool" where
  "emptyQualifier name =
     (case name of [] \<Rightarrow> False | c # s \<Rightarrow> c = CHR ''.'' \<and> s \<noteq> [] \<and> CHR ''.'' \<notin> set s)"

text \<open>
  An example platform for evaluating the model: colour is disabled, the time formatting
  returns the layout it is given (so an evaluation shows the layout that was chosen),
  the call stack resolves at skip depth 4 to line 42 of \<^verbatim>\<open>/src/app/main.go\<close> in
  \<^verbatim>\<open>main.main\<close>, and the directive processing returns the format (it is only applied
  to formats without a directive and without operands, where fmt does the same).
  \<open>noStack\<close> is the same platform with \<^verbatim>\<open>runtime.Caller\<close> failing at every depth.
\<close>

definition examplePlatform :: "nat platform" where
  "examplePlatform =
     \<lparr>fmt_directives = (\<lambda>format a. format),
      color_setWriter = (\<lambda>attr. []),
      color_unsetWriter = (\<lambda>attr. []),
      time_Now = 0,
      time_UTC = (\<lambda>t. t),
      time_Format = (\<lambda>t layout. layout),
      runtime_Caller = (\<lambda>sk. if sk = 4 then Some (7, ''/src/app/main.go'', 42) else None),
      runtime_FuncName = (\<lambda>pc. ''main.main''),
      filepath_Split = (\<lambda>p. (''/src/app/'', ''main.go'')),
      filepath_Base = (\<lambda>d. ''app''),
      filepath_Join = (\<lambda>d f. d @ ''/'' @ f)\<rparr>"

definition noStack :: "nat platform" where
  "noStack = examplePlatform\<lparr>runtime_Caller := (\<lambda>sk. None)\<rparr>"

section \<open>Properties\<close>

text \<open>
  C4. The exported flag constants have the values Ldate = 1, Ltime = 2,
  Lmicroseconds = 4, Llongfile = 8, Lshortfile = 16, LUTC = 32 and LCaller = 64, and
  LstdFlags is Ldate | Ltime, that is 3.
\<close>

theorem flag_constants:
  "Ldate = 1 \<and> Ltime = 2 \<and> Lmicroseconds = 4 \<and> Llongfile = 8 \<and> Lshortfile = 16 \<and>
   LUTC = 32 \<and> LCaller = 64 \<and> LstdFlags = (Ldate OR Ltime) \<and> LstdFlags = 3"
  by (simp add: flag_defs)

subsection \<open>Severity\<close>

lemma anyErr_iff: "anyErr v = (\<exists>av\<in>set v. is_error av)"
  by (induction v) auto

text \<open>
  C1. For every format and argument list the line written by StdLogget.Printf starts with
  the severity segment, and that segment is the tag \<^verbatim>\<open>[error]\<close> (in high-intensity red)
  if and only if at least one argument is an error value; otherwise it is the tag
  \<^verbatim>\<open>[info ]\<close> (in high-intensity blue). An error among the arguments decides the scan
  whatever follows it.
\<close>

theorem severity_tag_iff_error:
  "(severity_tag vset = (FgHiRed, ''[error]'')) = (\<exists>av\<in>set vset. is_error av)
   \<and> (severity_tag vset = (FgHiBlue, ''[info ]'')) = (\<not> (\<exists>av\<in>set vset. is_error av))
   \<and> anyErr (pre @ VError t k m # post) = True
   \<and> StdLogget_Printf P sl format vset =
       color_Fprintf P (fst (severity_tag vset)) (snd (severity_tag vset))
         @ timestamp_segment P (flag sl) @ caller_segment P (flag sl)
         @ '' '' @ message_segment P format vset"
  by (simp add: severity_tag_def anyErr_iff StdLogget_Printf_def severity_segment_def)

subsection \<open>The message\<close>

text \<open>
  The loop of doPrint, started anywhere but at the first operand, writes the separator
  its state asks for and then the operands joined by the rule on neighbours.
\<close>

lemma doPrint_joined:
  "doPrint p (Suc n) (b # r) =
     (if \<not> isString b \<and> \<not> p then '' '' else []) @ operandsJoined (b # r)"
  by (induction r arbitrary: p n b) auto

lemma Sprint_joined: "Sprint a = operandsJoined a"
proof (cases a)
  case Nil
  then show ?thesis by (simp add: Sprint_def)
next
  case (Cons x xs)
  have first: "doPrint False 0 (x # xs) = printArg x @ doPrint (isString x) (Suc 0) xs"
    by simp
  show ?thesis
  proof (cases xs)
    case Nil
    with \<open>a = x # xs\<close> show ?thesis by (simp add: Sprint_def)
  next
    case (Cons b r)
    have "Sprint a = printArg x @ doPrint (isString x) (Suc 0) (b # r)"
      using \<open>a = x # xs\<close> Cons first by (simp only: Sprint_def)
    also have "\<dots> = operandsJoined (x # b # r)"
      by (simp only: doPrint_joined) simp
    finally show ?thesis using \<open>a = x # xs\<close> Cons by simp
  qed
qed

lemma joined_no_strings:
  "\<forall>a\<in>set v. \<not> isString a \<Longrightarrow> operandsJoined v = spaceSeparated v"
  by (induction v rule: operandsJoined.induct) auto

text \<open>
  C2, as the specification states it, fails: with an empty format the message is not the
  arguments separated by spaces. For the arguments \<^verbatim>\<open>"count", 14, errors.New("BOOM")\<close>
  of the specification's own scenario the message is \<^verbatim>\<open>count14 BOOM\<close>, where the
  space-separated text is \<^verbatim>\<open>count 14 BOOM\<close>.
\<close>

theorem message_not_space_separated:
  "message_segment examplePlatform []
      [VString ''count'', VInt 14, VError ''*errors.errorString'' False ''BOOM'']
      = ''count14 BOOM''
   \<and> spaceSeparated [VString ''count'', VInt 14, VError ''*errors.errorString'' False ''BOOM'']
      = ''count 14 BOOM''"
  by (simp add: message_segment_def Sprint_def fmt_int_def digit_char_def)

text \<open>
  C2, amended. With an empty format the message is the stringified arguments with a
  space between two neighbours exactly when neither of them is of string kind
  (\<^verbatim>\<open>fmt.Sprint\<close>), so it is space-separated when no argument is of string kind; with a
  non-empty format it is the result of fmt's directive processing on the format and the
  arguments (\<^verbatim>\<open>fmt.Sprintf\<close>).
\<close>

theorem message_segment_rule:
  "message_segment P [] vset = operandsJoined vset
   \<and> ((\<forall>a\<in>set vset. \<not> isString a) \<longrightarrow> message_segment P [] vset = spaceSeparated vset)
   \<and> (format \<noteq> [] \<longrightarrow> message_segment P format vset = fmt_directives P format vset)"
  by (simp add: message_segment_def Sprint_joined Sprintf_def joined_no_strings)

theorem message_segment_rule_witness:
  "message_segment examplePlatform ''done'' [] = ''done''
   \<and> message_segment examplePlatform [] [VInt 1, VBool True, VNil] = ''1 true <nil>''
   \<and> message_segment examplePlatform [] [VInt 1, VError ''main.strErr'' True ''BOOM'', VInt 2]
       = ''1BOOM2''
   \<and> message_segment examplePlatform [] [VInt 1, VError ''*errors.errorString'' False ''BOOM'', VInt 2]
       = ''1 BOOM 2''"
  using message_segment_rule [of examplePlatform "[]" "''done''"]
    message_segment_rule [of examplePlatform "[VInt 1, VBool True, VNil]" "''done''"]
    message_segment_rule [of examplePlatform
      "[VInt 1, VError ''main.strErr'' True ''BOOM'', VInt 2]" "''done''"]
    message_segment_rule [of examplePlatform
      "[VInt 1, VError ''*errors.errorString'' False ''BOOM'', VInt 2]" "''done''"]
  by (simp add: examplePlatform_def fmt_int_def digit_char_def)

subsection \<open>The timestamp\<close>

lemma and_sub: "(fl::int) AND m \<noteq> 0 \<Longrightarrow> m AND k = m \<Longrightarrow> fl AND k \<noteq> 0"
proof
  assume a: "fl AND m \<noteq> 0" and b: "m AND k = m" and c: "fl AND k = 0"
  have "fl AND m = fl AND (k AND m)" using b by (simp add: and.commute)
  also have "\<dots> = (fl AND k) AND m" by (simp add: and.assoc)
  also have "\<dots> = 0" using c by simp
  finally show False using a by simp
qed

lemma time_bits:
  "fl AND Ldate \<noteq> 0 \<or> fl AND Ltime \<noteq> 0 \<or> fl AND Lmicroseconds \<noteq> 0
     \<Longrightarrow> fl AND (Ldate OR Ltime OR Lmicroseconds) \<noteq> 0"
  using and_sub [of fl 1 7] and_sub [of fl 2 7] and_sub [of fl 4 7]
  by (auto simp: flag_defs)

lemma caller_bits:
  "fl AND LCaller \<noteq> 0 \<or> fl AND Lshortfile \<noteq> 0 \<or> fl AND Llongfile \<noteq> 0
     \<Longrightarrow> fl AND (LCaller OR Lshortfile OR Llongfile) \<noteq> 0"
  using and_sub [of fl 64 88] and_sub [of fl 16 88] and_sub [of fl 8 88]
  by (auto simp: flag_defs)

text \<open>The layout handed to the time formatting, for each combination of the three flags.\<close>

lemma layout_table:
  "TrimSpace (dtFormat fl) =
     (if fl AND Ldate \<noteq> 0 then
        (if fl AND Ltime \<noteq> 0 then ''2006/01/02 15:04:05''
         else if fl AND Lmicroseconds \<noteq> 0 then ''2006/01/02 15:04:05.000000''
         else ''2006/01/02'')
      else
        (if fl AND Ltime \<noteq> 0 then ''15:04:05''
         else if fl AND Lmicroseconds \<noteq> 0 then ''15:04:05.000000''
         else []))"
  by (simp add: dtFormat_def TrimSpace_def asciiSpace_def)

lemma no_time_bits:
  "fl AND Ldate = 0 \<Longrightarrow> fl AND Ltime = 0 \<Longrightarrow> fl AND Lmicroseconds = 0
     \<Longrightarrow> fl AND (Ldate OR Ltime OR Lmicroseconds) = 0"
  by (simp add: bit.conj_disj_distrib)

text \<open>
  The timestamp segment for every flag value: nothing when none of Ldate, Ltime and
  Lmicroseconds is set, and otherwise a space and the current time (in UTC when LUTC is
  set) formatted with the layout of the table.
\<close>

lemma timestamp_segment_table:
  "timestamp_segment P fl =
     (if fl AND Ldate = 0 \<and> fl AND Ltime = 0 \<and> fl AND Lmicroseconds = 0 then []
      else '' '' @ time_Format P
             (if fl AND LUTC \<noteq> 0 then time_UTC P (time_Now P) else time_Now P)
             (if fl AND Ldate \<noteq> 0 then
                (if fl AND Ltime \<noteq> 0 then ''2006/01/02 15:04:05''
                 else if fl AND Lmicroseconds \<noteq> 0 then ''2006/01/02 15:04:05.000000''
                 else ''2006/01/02'')
              else
                (if fl AND Ltime \<noteq> 0 then ''15:04:05'' else ''15:04:05.000000'')))"
proof (cases "fl AND Ldate = 0 \<and> fl AND Ltime = 0 \<and> fl AND Lmicroseconds = 0")
  case True
  then show ?thesis
    using no_time_bits [of fl] by (simp add: timestamp_segment_def)
next
  case False
  then have "fl AND (Ldate OR Ltime OR Lmicroseconds) \<noteq> 0"
    using time_bits [of fl] by blast
  then have "timestamp_segment P fl =
      '' '' @ time_Format P (if fl AND LUTC \<noteq> 0 then time_UTC P (time_Now P) else time_Now P)
               (TrimSpace (dtFormat fl))"
    by (simp add: timestamp_segment_def)
  then show ?thesis
    using False by (auto simp: layout_table)
qed

text \<open>
  C3. For every flag value the timestamp segment is given by one table: it is empty when
  none of Ldate, Ltime and Lmicroseconds is set, and otherwise it is a space and the
  current time (in UTC when LUTC is set) under a layout. With Ltime set, and so with
  both Ltime and Lmicroseconds set, the layout is the whole-second \<^verbatim>\<open>15:04:05\<close> without
  fractional seconds. The layout \<^verbatim>\<open>15:04:05.000000\<close> is used when Lmicroseconds is set and
  Ltime is not, and only then: in every other case the segment is empty or uses a layout
  without the fraction. When Ldate is set the layout starts with the date \<^verbatim>\<open>2006/01/02\<close>,
  followed by a space and the time layout when there is one.
\<close>

theorem timestamp_layout_rule:
  "timestamp_segment P fl =
     (if fl AND Ldate = 0 \<and> fl AND Ltime = 0 \<and> fl AND Lmicroseconds = 0 then []
      else '' '' @ time_Format P
             (if fl AND LUTC \<noteq> 0 then time_UTC P (time_Now P) else time_Now P)
             (if fl AND Ldate \<noteq> 0 then
                (if fl AND Ltime \<noteq> 0 then ''2006/01/02 15:04:05''
                 else if fl AND Lmicroseconds \<noteq> 0 then ''2006/01/02 15:04:05.000000''
                 else ''2006/01/02'')
              else
                (if fl AND Ltime \<noteq> 0 then ''15:04:05'' else ''15:04:05.000000'')))
   \<and> (fl AND Ltime \<noteq> 0 \<and> fl AND Lmicroseconds \<noteq> 0 \<longrightarrow>
      timestamp_segment P fl =
        '' '' @ time_Format P (if fl AND LUTC \<noteq> 0 then time_UTC P (time_Now P) else time_Now P)
                 (if fl AND Ldate \<noteq> 0 then ''2006/01/02 15:04:05'' else ''15:04:05''))
   \<and> (fl AND Ltime \<noteq> 0 \<longrightarrow>
      timestamp_segment P fl =
        '' '' @ time_Format P (if fl AND LUTC \<noteq> 0 then time_UTC P (time_Now P) else time_Now P)
                 (if fl AND Ldate \<noteq> 0 then ''2006/01/02 15:04:05'' else ''15:04:05''))
   \<and> ((\<exists>d. TrimSpace (dtFormat fl) = d @ ''.000000'') \<longrightarrow>
        fl AND Lmicroseconds \<noteq> 0 \<and> fl AND Ltime = 0)
   \<and> (fl AND Lmicroseconds \<noteq> 0 \<and> fl AND Ltime = 0 \<longrightarrow>
      timestamp_segment P fl =
        '' '' @ time_Format P (if fl AND LUTC \<noteq> 0 then time_UTC P (time_Now P) else time_Now P)
                 (if fl AND Ldate \<noteq> 0 then ''2006/01/02 15:04:05.000000''
                  else ''15:04:05.000000''))
   \<and> (fl AND Lmicroseconds = 0 \<and> fl AND Ltime = 0 \<longrightarrow>
      timestamp_segment P fl =
        (if fl AND Ldate \<noteq> 0 then
           '' '' @ time_Format P
              (if fl AND LUTC \<noteq> 0 then time_UTC P (time_Now P) else time_Now P) ''2006/01/02''
         else []))
   \<and> (fl AND Ldate \<noteq> 0 \<longrightarrow>
        (\<exists>t. TrimSpace (dtFormat fl) = ''2006/01/02'' @ t
           \<and> timestamp_segment P fl =
               '' '' @ time_Format P
                  (if fl AND LUTC \<noteq> 0 then time_UTC P (time_Now P) else time_Now P)
                  (''2006/01/02'' @ t)
           \<and> (t = [] \<or> t = '' 15:04:05'' \<or> t = '' 15:04:05.000000'')))"
proof -
  have tab: "timestamp_segment P fl =
     (if fl AND Ldate = 0 \<and> fl AND Ltime = 0 \<and> fl AND Lmicroseconds = 0 then []
      else '' '' @ time_Format P
             (if fl AND LUTC \<noteq> 0 then time_UTC P (time_Now P) else time_Now P)
             (if fl AND Ldate \<noteq> 0 then
                (if fl AND Ltime \<noteq> 0 then ''2006/01/02 15:04:05''
                 else if fl AND Lmicroseconds \<noteq> 0 then ''2006/01/02 15:04:05.000000''
                 else ''2006/01/02'')
              else
                (if fl AND Ltime \<noteq> 0 then ''15:04:05'' else ''15:04:05.000000'')))"
    by (rule timestamp_segment_table)
  have frac: "(\<exists>d. TrimSpace (dtFormat fl) = d @ ''.000000'') \<longrightarrow>
        fl AND Lmicroseconds \<noteq> 0 \<and> fl AND Ltime = 0"
    by (auto simp: layout_table split: if_splits)
  have date: "fl AND Ldate \<noteq> 0 \<longrightarrow>
        (\<exists>t. TrimSpace (dtFormat fl) = ''2006/01/02'' @ t
           \<and> timestamp_segment P fl =
               '' '' @ time_Format P
                  (if fl AND LUTC \<noteq> 0 then time_UTC P (time_Now P) else time_Now P)
                  (''2006/01/02'' @ t)
           \<and> (t = [] \<or> t = '' 15:04:05'' \<or> t = '' 15:04:05.000000''))"
    by (simp add: tab layout_table)
  have rest: "(fl AND Ltime \<noteq> 0 \<longrightarrow>
      timestamp_segment P fl =
        '' '' @ time_Format P (if fl AND LUTC \<noteq> 0 then time_UTC P (time_Now P) else time_Now P)
                 (if fl AND Ldate \<noteq> 0 then ''2006/01/02 15:04:05'' else ''15:04:05''))
   \<and> (fl AND Lmicroseconds \<noteq> 0 \<and> fl AND Ltime = 0 \<longrightarrow>
      timestamp_segment P fl =
        '' '' @ time_Format P (if fl AND LUTC \<noteq> 0 then time_UTC P (time_Now P) else time_Now P)
                 (if fl AND Ldate \<noteq> 0 then ''2006/01/02 15:04:05.000000''
                  else ''15:04:05.000000''))
   \<and> (fl AND Lmicroseconds = 0 \<and> fl AND Ltime = 0 \<longrightarrow>
      timestamp_segment P fl =
        (if fl AND Ldate \<noteq> 0 then
           '' '' @ time_Format P
              (if fl AND LUTC \<noteq> 0 then time_UTC P (time_Now P) else time_Now P) ''2006/01/02''
         else []))"
    by (simp add: tab)
  show ?thesis
    using tab frac date rest by blast
qed

theorem timestamp_layout_rule_witness:
  "timestamp_segment examplePlatform 7 = '' 2006/01/02 15:04:05''
   \<and> timestamp_segment examplePlatform 6 = '' 15:04:05''
   \<and> timestamp_segment examplePlatform 4 = '' 15:04:05.000000''
   \<and> timestamp_segment examplePlatform 2 = '' 15:04:05''
   \<and> timestamp_segment examplePlatform 1 = '' 2006/01/02''
   \<and> timestamp_segment examplePlatform 3 = '' 2006/01/02 15:04:05''
   \<and> timestamp_segment examplePlatform 5 = '' 2006/01/02 15:04:05.000000''
   \<and> timestamp_segment examplePlatform 67 = '' 2006/01/02 15:04:05''
   \<and> timestamp_segment examplePlatform 0 = []
   \<and> timestamp_segment examplePlatform 88 = []"
  using timestamp_layout_rule [of examplePlatform 7] timestamp_layout_rule [of examplePlatform 6]
    timestamp_layout_rule [of examplePlatform 4] timestamp_layout_rule [of examplePlatform 2]
    timestamp_layout_rule [of examplePlatform 1] timestamp_layout_rule [of examplePlatform 3]
    timestamp_layout_rule [of examplePlatform 5] timestamp_layout_rule [of examplePlatform 67]
    timestamp_layout_rule [of examplePlatform 0] timestamp_layout_rule [of examplePlatform 88]
  by (simp add: flag_defs examplePlatform_def)

subsection \<open>The function name\<close>

lemma LastIndex_absent: "c \<notin> set s \<Longrightarrow> LastIndex s c = - 1"
  by (induction s) auto

lemma LastIndex_last: "c \<notin> set suf \<Longrightarrow> LastIndex (pre @ c # suf) c = int (length pre)"
  by (induction pre) (auto simp: LastIndex_absent)

lemma afterLastDot_split:
  "CHR ''.'' \<notin> set suf \<Longrightarrow> afterLastDot (pre @ CHR ''.'' # suf) = suf"
proof -
  assume nodot: "CHR ''.'' \<notin> set suf"
  have "takeWhile (\<lambda>c. c \<noteq> CHR ''.'') (rev suf @ CHR ''.'' # rev pre) =
          takeWhile (\<lambda>c. c \<noteq> CHR ''.'') (rev suf)"
    by (rule takeWhile_tail) simp
  also have "\<dots> = rev suf"
    using nodot by (simp add: takeWhile_eq_all_conv) blast
  finally show ?thesis by (simp add: afterLastDot_def)
qed

lemma funcNameOf_split:
  assumes "CHR ''.'' \<notin> set suf"
  shows "funcNameOf (pre @ CHR ''.'' # suf) =
           (if pre \<noteq> [] \<and> suf \<noteq> [] then suf else pre @ CHR ''.'' # suf)"
proof -
  have ix: "LastIndex (pre @ CHR ''.'' # suf) CHR ''.'' = int (length pre)"
    using assms by (rule LastIndex_last)
  have cut: "drop (nat (int (length pre) + 1)) (pre @ CHR ''.'' # suf) = suf"
    by (simp add: nat_add_distrib)
  show ?thesis
    unfolding funcNameOf_def ix Let_def cut by auto
qed

lemma funcNameOf_no_dot: "CHR ''.'' \<notin> set name \<Longrightarrow> funcNameOf name = name"
  by (simp add: funcNameOf_def LastIndex_absent)

text \<open>
  The extraction on every string: it is the extraction by the words of the specification,
  except on a string whose only dot is its first byte and is followed by a name, which
  here keeps whole (the guard \<^verbatim>\<open>ix > 0\<close>). For \<^verbatim>\<open>.init\<close> it returns \<^verbatim>\<open>.init\<close>.
\<close>

lemma emptyQualifier_split:
  "CHR ''.'' \<notin> set s \<Longrightarrow> emptyQualifier (p @ CHR ''.'' # s) = (p = [] \<and> s \<noteq> [])"
  by (cases p) (auto simp: emptyQualifier_def)

lemma emptyQualifier_no_dot: "CHR ''.'' \<notin> set name \<Longrightarrow> \<not> emptyQualifier name"
  by (cases name) (auto simp: emptyQualifier_def)

lemma funcNameOf_all:
  "funcNameOf name = (if emptyQualifier name then name else spec_funcName name)"
proof (cases "CHR ''.'' \<in> set name")
  case False
  then show ?thesis
    by (simp add: funcNameOf_no_dot spec_funcName_def emptyQualifier_no_dot)
next
  case True
  then obtain p s where split: "name = p @ CHR ''.'' # s" "CHR ''.'' \<notin> set s"
    by (auto dest: split_list_last)
  then show ?thesis
    by (auto simp: funcNameOf_split spec_funcName_def afterLastDot_split emptyQualifier_split)
qed

lemma funcNameOf_leading_dot:
  "funcNameOf ''.init'' = ''.init'' \<and> spec_funcName ''.init'' = ''init''
   \<and> emptyQualifier ''.init''"
  by (simp add: funcNameOf_def spec_funcName_def afterLastDot_def emptyQualifier_def)

text \<open>
  C5. For every fully qualified function identifier, that is every string other than a
  bare name behind an empty qualifier (the function names that the Go runtime reports
  are all of this kind), the extraction returns the text after the last dot; when the
  string has no dot, or nothing follows the last dot, it returns the identifier unchanged. In terms of the string
  itself: for \<open>pre.suf\<close> with no dot in \<open>suf\<close> the result is \<open>suf\<close>, and for \<open>pre.\<close>
  it is \<open>pre.\<close>.
\<close>

theorem funcNameOf_rule:
  "\<not> emptyQualifier name \<Longrightarrow>
     funcNameOf name = spec_funcName name
     \<and> (CHR ''.'' \<in> set name \<and> afterLastDot name \<noteq> [] \<longrightarrow> funcNameOf name = afterLastDot name)
     \<and> (CHR ''.'' \<notin> set name \<or> afterLastDot name = [] \<longrightarrow> funcNameOf name = name)
     \<and> (\<forall>pre suf. name = pre @ ''.'' @ suf \<and> CHR ''.'' \<notin> set suf \<and> suf \<noteq> []
           \<longrightarrow> funcNameOf name = suf)
     \<and> (\<forall>pre. name = pre @ ''.'' \<longrightarrow> funcNameOf name = name)"
proof -
  assume dom: "\<not> emptyQualifier name"
  have eq: "funcNameOf name = spec_funcName name"
    using dom by (simp add: funcNameOf_all)
  have cut: "\<forall>pre suf. name = pre @ ''.'' @ suf \<and> CHR ''.'' \<notin> set suf \<and> suf \<noteq> []
           \<longrightarrow> funcNameOf name = suf"
    using dom by (auto simp: funcNameOf_split emptyQualifier_split emptyQualifier_def)
  have keep: "\<forall>pre. name = pre @ ''.'' \<longrightarrow> funcNameOf name = name"
    using funcNameOf_split [of "[]"] by auto
  show ?thesis
    using eq cut keep by (auto simp: spec_funcName_def)
qed

theorem funcNameOf_rule_witness:
  "funcNameOf ''main'' = ''main'' \<and> funcNameOf ''main.main'' = ''main''
   \<and> funcNameOf ''github.com/a/b.(*T).Run'' = ''Run''
   \<and> funcNameOf ''pkg.'' = ''pkg.''"
  using funcNameOf_rule [of "''main''"] funcNameOf_rule [of "''main.main''"]
    funcNameOf_rule [of "''github.com/a/b.(*T).Run''"] funcNameOf_rule [of "''pkg.''"]
  by (simp add: emptyQualifier_def spec_funcName_def afterLastDot_def)

subsection \<open>The caller segment\<close>

text \<open>
  C6. For every call with LCaller, Lshortfile or Llongfile set, if the caller frame
  cannot be resolved (\<^verbatim>\<open>runtime.Caller\<close> fails at depth 4), here returns its error, the
  caller segment is empty, and the line still holds the severity tag, the timestamp and
  the message; the call through the Logger writes that line and returns normally.
\<close>

theorem caller_failure_omits_segment:
  "fl AND LCaller \<noteq> 0 \<or> fl AND Lshortfile \<noteq> 0 \<or> fl AND Llongfile \<noteq> 0 \<Longrightarrow>
   runtime_Caller P 4 = None \<Longrightarrow> flag (logget w) = fl \<Longrightarrow>
     here P [4] = Inl errNotAvailable
     \<and> caller_segment P fl = []
     \<and> StdLogget_Printf P (logget w) format vset =
         severity_segment P vset @ timestamp_segment P fl @ '' '' @ message_segment P format vset
     \<and> Logger_Printf \<lparr>out = StdLogget_Output P\<rparr> format vset w =
         (w\<lparr>stdout := stdout w @ [severity_segment P vset @ timestamp_segment P fl @ '' ''
              @ message_segment P format vset]\<rparr>, Returns)"
proof -
  assume bits: "fl AND LCaller \<noteq> 0 \<or> fl AND Lshortfile \<noteq> 0 \<or> fl AND Llongfile \<noteq> 0"
    and fails: "runtime_Caller P 4 = None" and fl: "flag (logget w) = fl"
  have h: "here P [4] = Inl errNotAvailable"
    using fails by (simp add: here_def)
  have c: "caller_segment P fl = []"
    using h by (simp add: caller_segment_def)
  have p: "StdLogget_Printf P (logget w) format vset =
         severity_segment P vset @ timestamp_segment P fl @ '' '' @ message_segment P format vset"
    using c fl by (simp add: StdLogget_Printf_def)
  show ?thesis
    using h c p by (simp add: Logger_Printf_def StdLogget_Output_def)
qed

theorem caller_failure_omits_segment_witness:
  "StdLogget_Printf noStack \<lparr>prefix = [], flag = 64\<rparr> [] [VString ''data is ok'']
     = ''[info ] data is ok''"
  using caller_failure_omits_segment [of 64 noStack
      "\<lparr>logget = \<lparr>prefix = [], flag = 64\<rparr>, stdout = []\<rparr>" "[]" "[VString ''data is ok'']"]
  by (simp add: noStack_def examplePlatform_def flag_defs severity_segment_def severity_tag_def
      color_Fprintf_def timestamp_segment_def message_segment_def Sprint_def)

text \<open>
  C7. For every call where Llongfile is set and neither LCaller nor Lshortfile is, the
  caller segment is empty, whether or not the caller frame resolves: the line is the
  severity tag, the timestamp and the message only.
\<close>

theorem longfile_alone_no_segment:
  "fl AND Llongfile \<noteq> 0 \<Longrightarrow> fl AND LCaller = 0 \<Longrightarrow> fl AND Lshortfile = 0 \<Longrightarrow>
     caller_segment P fl = []
     \<and> StdLogget_Printf P (sl\<lparr>flag := fl\<rparr>) format vset =
         severity_segment P vset @ timestamp_segment P fl @ '' '' @ message_segment P format vset"
  by (simp add: caller_segment_def StdLogget_Printf_def split: sum.splits prod.splits)

theorem longfile_alone_no_segment_witness:
  "caller_segment examplePlatform 8 = []
   \<and> caller_segment examplePlatform 64 = '' app/main.go:42 main()''"
  using longfile_alone_no_segment [of 8 examplePlatform]
  by (simp add: flag_defs caller_segment_def here_def examplePlatform_def funcNameOf_def
      fmt_int02_def digit_char_def)

subsection \<open>The facade\<close>

text \<open>
  C8. For every argument list, Println makes one call of the output's Printf, with the
  empty format and the arguments followed by the string of one newline; Print makes one
  call with the empty format and the arguments unchanged, Printf one call with its format
  and arguments unchanged; each then returns. On the recording output exactly one call
  is added to the record.
\<close>

theorem print_family_one_render_call:
  "Logger_Println l v w = (out_Printf (out l) [] (v @ [VString [CHR 0x0A]]) w, Returns)
   \<and> Logger_Print l v w = (out_Printf (out l) [] v w, Returns)
   \<and> Logger_Printf l format v w = (out_Printf (out l) format v w, Returns)
   \<and> calls (fst (Logger_Println \<lparr>out = Recorder\<rparr> v r)) = calls r @ [([], v @ [VString [CHR 0x0A]])]
   \<and> calls (fst (Logger_Print \<lparr>out = Recorder\<rparr> v r)) = calls r @ [([], v)]
   \<and> calls (fst (Logger_Printf \<lparr>out = Recorder\<rparr> format v r)) = calls r @ [(format, v)]"
  by (simp add: Logger_Println_def Logger_Print_def Logger_Printf_def Recorder_def)

text \<open>
  On a StdLogget, Panic and Panicln write the line and panic with the message of that
  line; so does Panicf when its format is not empty or it has no argument.
\<close>

lemma Panic_carries_message:
  "Logger_Panic \<lparr>out = StdLogget_Output P\<rparr> v w =
     (w\<lparr>stdout := stdout w @ [StdLogget_Printf P (logget w) [] v]\<rparr>,
      Panics (message_segment P [] v))"
  by (simp add: Logger_Panic_def StdLogget_Output_def message_segment_def)

lemma Panicln_carries_message:
  "Logger_Panicln \<lparr>out = StdLogget_Output P\<rparr> v w =
     (w\<lparr>stdout := stdout w @ [StdLogget_Printf P (logget w) [] (v @ [VString [CHR 0x0A]])]\<rparr>,
      Panics (message_segment P [] (v @ [VString [CHR 0x0A]])))"
  by (simp add: Logger_Panicln_def StdLogget_Output_def message_segment_def Let_def)

lemma Panicf_carries_message:
  "format \<noteq> [] \<or> v = [] \<Longrightarrow>
   Logger_Panicf (fmt_directives P) \<lparr>out = StdLogget_Output P\<rparr> format v w =
     (w\<lparr>stdout := stdout w @ [StdLogget_Printf P (logget w) format v]\<rparr>,
      Panics (message_segment P format v))"
  by (auto simp: Logger_Panicf_def StdLogget_Output_def message_segment_def Sprintf_def
      Sprint_def)

text \<open>
  C9 says that every Panic operation panics with the message text of the line it wrote.
  Panicf with the empty format and the argument \<^verbatim>\<open>"x"\<close> writes the line
  \<^verbatim>\<open>[info ] x\<close>, whose message is \<^verbatim>\<open>x\<close> (StdLogget.Printf takes the empty format as
  "no formatting"), and panics with \<^verbatim>\<open>%!(EXTRA string=x)\<close>, the result of
  \<^verbatim>\<open>fmt.Sprintf("", "x")\<close>.
\<close>

theorem Panicf_empty_format_value:
  "Logger_Panicf (fmt_directives examplePlatform) \<lparr>out = StdLogget_Output examplePlatform\<rparr>
      [] [VString ''x''] \<lparr>logget = NewStdLogget, stdout = []\<rparr>
     = (\<lparr>logget = NewStdLogget, stdout = [''[info ] x'']\<rparr>, Panics ''%!(EXTRA string=x)'')
   \<and> message_segment examplePlatform [] [VString ''x''] = ''x''"
  by (simp add: Logger_Panicf_def StdLogget_Output_def StdLogget_Printf_def NewStdLogget_def
      severity_segment_def severity_tag_def color_Fprintf_def timestamp_segment_def
      caller_segment_def message_segment_def Sprint_def Sprintf_def examplePlatform_def flag_defs)

subsection \<open>The prefix\<close>

text \<open>
  C10. For every format, argument list and flag value, the line StdLogget.Printf writes
  is the same for any two stored prefixes: SetPrefix changes no later line (through the
  Output interface as well), it only stores the prefix that Prefix returns, and leaves
  the flags alone.
\<close>

theorem prefix_never_rendered:
  "StdLogget_Printf P (sl\<lparr>prefix := p\<rparr>) format vset
     = StdLogget_Printf P (sl\<lparr>prefix := q\<rparr>) format vset
   \<and> StdLogget_Printf P (SetPrefix p sl) format vset = StdLogget_Printf P sl format vset
   \<and> Prefix (SetPrefix p sl) = p
   \<and> Flags (SetPrefix p sl) = Flags sl
   \<and> stdout (out_Printf (StdLogget_Output P) format vset (out_SetPrefix (StdLogget_Output P) p w))
       = stdout (out_Printf (StdLogget_Output P) format vset w)"
  by (simp add: StdLogget_Printf_def SetPrefix_def Prefix_def Flags_def StdLogget_Output_def)

end
